theory Spec2Isabelle
  imports Main "HOL-Library.Word" "HOL-Library.Sublist"
begin

unbundle bit_operations_syntax

section \<open>rss2email: feed entries to mail, with seen markers\<close>

text \<open>
  The program reads a list of feed URLs, fetches and parses each feed and mails every
  entry it has not mailed before. An entry counts as mailed when a marker file named
  after the SHA-1 of its GUID exists under \<open>$HOME/.rss2email/seen\<close>.

  Go strings are byte sequences, and so are the \<open>string\<close>s here (a \<open>char\<close> is
  a byte). A Go \<open>error\<close> is represented by its message.
\<close>

type_synonym byte = "8 word"
type_synonym u32 = "32 word"
type_synonym error = string

subsection \<open>crypto/sha1 and encoding/hex\<close>

text \<open>
  \<open>GUID2Hash\<close> calls the standard library's SHA-1 and hexadecimal encoder. Both are
  written out here after FIPS 180-4 and \<open>encoding/hex\<close>: the message is padded with
  \<open>0x80\<close>, zeros and its 64-bit big-endian bit length to a multiple of 64 bytes, every
  64-byte block is expanded to 80 words and run through 80 rounds, and the five state
  words are emitted big-endian.
\<close>

definition bytes_of :: "string \<Rightarrow> byte list" where
  "bytes_of s = map of_char s"

definition be32 :: "u32 \<Rightarrow> byte list" where
  "be32 x = [ucast (drop_bit 24 x), ucast (drop_bit 16 x), ucast (drop_bit 8 x), ucast x]"

definition be64 :: "64 word \<Rightarrow> byte list" where
  "be64 x = map (\<lambda>k. ucast (drop_bit (8 * k) x)) [7, 6, 5, 4, 3, 2, 1, 0]"

definition word_of_be :: "byte list \<Rightarrow> u32" where
  "word_of_be bs = foldl (\<lambda>acc b. push_bit 8 acc OR ucast b) 0 bs"

definition rotl :: "nat \<Rightarrow> u32 \<Rightarrow> u32" where
  "rotl n x = push_bit n x OR drop_bit (32 - n) x"

definition sha1_pad :: "byte list \<Rightarrow> byte list" where
  "sha1_pad msg =
     msg @ [0x80] @ replicate ((119 - length msg mod 64) mod 64) 0
         @ be64 (push_bit 3 (of_nat (length msg)))"

function chunks64 :: "byte list \<Rightarrow> byte list list" where
  "chunks64 bs = (if length bs < 64 then [] else take 64 bs # chunks64 (drop 64 bs))"
  by pat_completeness auto
termination
  by (relation "measure length") auto

declare chunks64.simps [simp del]

function words4 :: "byte list \<Rightarrow> u32 list" where
  "words4 bs = (if length bs < 4 then [] else word_of_be (take 4 bs) # words4 (drop 4 bs))"
  by pat_completeness auto
termination
  by (relation "measure length") auto

declare words4.simps [simp del]

fun expand :: "nat \<Rightarrow> u32 list \<Rightarrow> u32 list" where
  "expand 0 ws = ws"
| "expand (Suc n) ws =
     (let i = length ws
      in expand n
           (ws @ [rotl 1 (ws ! (i - 3) XOR ws ! (i - 8) XOR ws ! (i - 14) XOR ws ! (i - 16))]))"

type_synonym digest = "u32 \<times> u32 \<times> u32 \<times> u32 \<times> u32"

definition sha1_round :: "u32 list \<Rightarrow> digest \<Rightarrow> nat \<Rightarrow> digest" where
  "sha1_round w s i =
     (case s of (a, b, c, d, e) \<Rightarrow>
        let f = (if i < 20 then (b AND c) OR (NOT b AND d)
                 else if i < 40 then b XOR c XOR d
                 else if i < 60 then (b AND c) OR (b AND d) OR (c AND d)
                 else b XOR c XOR d);
            k = (if i < 20 then 0x5A827999
                 else if i < 40 then 0x6ED9EBA1
                 else if i < 60 then 0x8F1BBCDC
                 else 0xCA62C1D6);
            t = rotl 5 a + f + e + k + w ! i
        in (t, a, rotl 30 b, c, d))"

definition sha1_block :: "digest \<Rightarrow> byte list \<Rightarrow> digest" where
  "sha1_block h blk =
     (let w = expand 64 (words4 blk)
      in case (h, foldl (sha1_round w) h [0..<80]) of
           ((h0, h1, h2, h3, h4), (a, b, c, d, e)) \<Rightarrow>
             (h0 + a, h1 + b, h2 + c, h3 + d, h4 + e))"

definition sha1_init :: digest where
  "sha1_init = (0x67452301, 0xEFCDAB89, 0x98BADCFE, 0x10325476, 0xC3D2E1F0)"

definition sha1_sum :: "byte list \<Rightarrow> byte list" where
  "sha1_sum msg =
     (case foldl sha1_block sha1_init (chunks64 (sha1_pad msg)) of
        (h0, h1, h2, h3, h4) \<Rightarrow> be32 h0 @ be32 h1 @ be32 h2 @ be32 h3 @ be32 h4)"

definition hextable :: string where
  "hextable = ''0123456789abcdef''"

definition EncodeToString :: "byte list \<Rightarrow> string" where
  "EncodeToString bs =
     concat (map (\<lambda>v. [hextable ! unat (drop_bit 4 v), hextable ! unat (v AND 0x0f)]) bs)"

text \<open>
  \<^verbatim>\<open>func GUID2Hash(guid string) string\<close>: hash the bytes of the GUID, encode the 20
  digest bytes in hexadecimal. It reads and writes no state, so it is a function of the
  GUID alone.
\<close>

definition GUID2Hash :: "string \<Rightarrow> string" where
  "GUID2Hash guid = EncodeToString (sha1_sum (bytes_of guid))"

definition is_lower_hex :: "char \<Rightarrow> bool" where
  "is_lower_hex c = (c \<in> set ''0123456789abcdef'')"

subsection \<open>Library functions on strings\<close>

definition NL :: string where
  "NL = [CHR 0x0A]"

text \<open>\<open>%d\<close> of \<open>fmt.Printf\<close> for a length: decimal digits, most significant first.\<close>

function decimal :: "nat \<Rightarrow> string" where
  "decimal n =
     (if n < 10 then [char_of (48 + n)] else decimal (n div 10) @ [char_of (48 + n mod 10)])"
  by pat_completeness auto
termination
  by (relation "measure id") auto

declare decimal.simps [simp del]

text \<open>\<^verbatim>\<open>strings.HasPrefix(s, prefix)\<close>\<close>

definition HasPrefix :: "string \<Rightarrow> string \<Rightarrow> bool" where
  "HasPrefix s p = prefix p s"

text \<open>
  \<^verbatim>\<open>strings.TrimSpace\<close> removes the leading and the trailing white space that
  \<open>unicode.IsSpace\<close> accepts: six ASCII characters, NEL, NBSP and the space
  characters beyond Latin-1, each recognised by its UTF-8 encoding. Leading runes are
  removed first, trailing ones from what is left.
\<close>

definition space_runes :: "string list" where
  "space_runes =
     [[CHR 0x09], [CHR 0x0A], [CHR 0x0B], [CHR 0x0C], [CHR 0x0D], [CHR 0x20],
      [CHR 0xC2, CHR 0x85], [CHR 0xC2, CHR 0xA0],
      [CHR 0xE1, CHR 0x9A, CHR 0x80],
      [CHR 0xE2, CHR 0x80, CHR 0x80], [CHR 0xE2, CHR 0x80, CHR 0x81],
      [CHR 0xE2, CHR 0x80, CHR 0x82], [CHR 0xE2, CHR 0x80, CHR 0x83],
      [CHR 0xE2, CHR 0x80, CHR 0x84], [CHR 0xE2, CHR 0x80, CHR 0x85],
      [CHR 0xE2, CHR 0x80, CHR 0x86], [CHR 0xE2, CHR 0x80, CHR 0x87],
      [CHR 0xE2, CHR 0x80, CHR 0x88], [CHR 0xE2, CHR 0x80, CHR 0x89],
      [CHR 0xE2, CHR 0x80, CHR 0x8A],
      [CHR 0xE2, CHR 0x80, CHR 0xA8], [CHR 0xE2, CHR 0x80, CHR 0xA9],
      [CHR 0xE2, CHR 0x80, CHR 0xAF], [CHR 0xE2, CHR 0x81, CHR 0x9F],
      [CHR 0xE3, CHR 0x80, CHR 0x80]]"

function trim_leading :: "string list \<Rightarrow> string \<Rightarrow> string" where
  "trim_leading rs s =
     (case find (\<lambda>r. r \<noteq> [] \<and> prefix r s) rs of
        None \<Rightarrow> s
      | Some r \<Rightarrow> trim_leading rs (drop (length r) s))"
  by pat_completeness auto
termination
proof (relation "measure (\<lambda>(rs, s). length s)")
  show "wf (measure (\<lambda>(rs, s). length s))" by simp
next
  fix rs :: "string list" and s r :: string
  assume "find (\<lambda>r. r \<noteq> [] \<and> prefix r s) rs = Some r"
  then have "r \<noteq> []" and "prefix r s"
    by (auto simp: find_Some_iff)
  then have "s \<noteq> []" by auto
  with \<open>r \<noteq> []\<close> show "((rs, drop (length r) s), (rs, s)) \<in> measure (\<lambda>(rs, s). length s)"
    by simp
qed

declare trim_leading.simps [simp del]

definition TrimLeftSpace :: "string \<Rightarrow> string" where
  "TrimLeftSpace s = trim_leading space_runes s"

definition TrimRightSpace :: "string \<Rightarrow> string" where
  "TrimRightSpace s = rev (trim_leading (map rev space_runes) (rev s))"

definition TrimSpace :: "string \<Rightarrow> string" where
  "TrimSpace s = TrimRightSpace (TrimLeftSpace s)"

text \<open>
  \<^verbatim>\<open>bufio.Scanner\<close> with its default split function \<open>ScanLines\<close>: the tokens are the
  lines without their end-of-line marker (a newline, with one carriage return before it
  dropped); a last line without newline is a token when it is not empty. The scanner's
  buffer holds at most 65536 bytes: when the next 65536 bytes hold no newline,
  \<open>Scan\<close> returns false and the loop over the lines ends there.
\<close>

definition dropCR :: "string \<Rightarrow> string" where
  "dropCR l = (if l \<noteq> [] \<and> last l = CHR 0x0D then butlast l else l)"

function ScanLines :: "string \<Rightarrow> string list" where
  "ScanLines data =
     (if data = [] then []
      else let l = takeWhile (\<lambda>c. c \<noteq> CHR 0x0A) data;
               rest = drop (length l) data
           in if 65536 \<le> length l then []
              else if rest = [] then [dropCR l]
              else dropCR l # ScanLines (tl rest))"
  by pat_completeness auto
termination
  by (relation "measure length") (auto simp: Let_def)

declare ScanLines.simps [simp del]

subsection \<open>The world outside the program\<close>

text \<open>
  The file system, the network, the mail transport and the terminal are one record that
  every effectful function takes and returns. What the outside answers is part of it:
  \<^item> \<open>env\<close>: the process environment (\<open>os.Getenv\<close> gives the empty string for an
    unset variable);
  \<^item> \<open>VERBOSE\<close>: the program's global flag;
  \<^item> \<open>dirs\<close> and \<open>files\<close>: the directories that exist and the regular files with
    their contents, by path;
  \<^item> \<open>stat_fault\<close>, \<open>open_fault\<close>, \<open>mkdir_fault\<close>, \<open>write_fault\<close>: the paths at
    which the named system call fails for a reason other than a missing file
    (permissions, a read-only or full device, an I/O error), with the error;
  \<^item> \<open>http\<close>: what a GET of a URL gives; \<open>requests\<close>: the GETs sent so far;
  \<^item> \<open>sendmail\<close>: how a \<open>/usr/sbin/sendmail\<close> process with given arguments and input
    behaves; \<open>procs\<close>: the processes started so far, with the message offered to each;
  \<^item> \<open>stdout\<close>: what was printed so far, one element for each \<open>Printf\<close>.
\<close>

datatype oserror = NotExist error | OtherError error

fun Error :: "oserror \<Rightarrow> error" where
  "Error (NotExist m) = m"
| "Error (OtherError m) = m"

datatype http_outcome =
    NewRequestFails error
  | DoFails error
  | ReadFails error
  | Body string

record proc =
  stdin_pipe_err :: "error option"
  stdout_pipe_err :: "error option"
  write_err :: "error option"
  read_all :: "error + string"
  wait_err :: "error option"

record world =
  env :: "string \<rightharpoonup> string"
  VERBOSE :: bool
  dirs :: "string set"
  files :: "string \<rightharpoonup> string"
  stat_fault :: "string \<rightharpoonup> error"
  open_fault :: "string \<rightharpoonup> error"
  mkdir_fault :: "string \<rightharpoonup> error"
  write_fault :: "string \<rightharpoonup> error"
  http :: "string \<Rightarrow> http_outcome"
  requests :: "string list"
  sendmail :: "string list \<Rightarrow> string \<Rightarrow> proc"
  procs :: "(string list \<times> string) list"
  stdout :: "string list"

definition Getenv :: "string \<Rightarrow> world \<Rightarrow> string" where
  "Getenv k w = (case env w k of None \<Rightarrow> [] | Some v \<Rightarrow> v)"

definition Printf :: "string \<Rightarrow> world \<Rightarrow> world" where
  "Printf s w = w\<lparr>stdout := stdout w @ [s]\<rparr>"

text \<open>\<^verbatim>\<open>os.IsNotExist(err)\<close>; it is false for a nil error.\<close>

fun IsNotExist :: "oserror option \<Rightarrow> bool" where
  "IsNotExist (Some (NotExist m)) = True"
| "IsNotExist _ = False"

text \<open>\<^verbatim>\<open>os.Stat\<close>, reduced to its error.\<close>

definition Stat :: "string \<Rightarrow> world \<Rightarrow> oserror option" where
  "Stat name w =
     (case stat_fault w name of
        Some e \<Rightarrow> Some (OtherError e)
      | None \<Rightarrow>
          if files w name = None \<and> name \<notin> dirs w
          then Some (NotExist (''stat '' @ name @ '': no such file or directory''))
          else None)"

text \<open>
  \<^verbatim>\<open>os.Open\<close> followed by reading all of the file. A directory opens, and reading
  it gives nothing.
\<close>

definition Open :: "string \<Rightarrow> world \<Rightarrow> oserror + string" where
  "Open name w =
     (case open_fault w name of
        Some e \<Rightarrow> Inl (OtherError e)
      | None \<Rightarrow>
          (case files w name of
             Some content \<Rightarrow> Inr content
           | None \<Rightarrow>
               if name \<in> dirs w then Inr []
               else Inl (NotExist (''open '' @ name @ '': no such file or directory''))))"

text \<open>\<^verbatim>\<open>os.MkdirAll\<close>: afterwards the directory exists, unless the call fails.\<close>

definition MkdirAll :: "string \<Rightarrow> world \<Rightarrow> oserror option \<times> world" where
  "MkdirAll path w =
     (case mkdir_fault w path of
        Some e \<Rightarrow> (Some (OtherError e), w)
      | None \<Rightarrow> (None, w\<lparr>dirs := insert path (dirs w)\<rparr>))"

text \<open>The directory part of a path: what stands before its last slash.\<close>

definition Dir :: "string \<Rightarrow> string" where
  "Dir name = rev (drop 1 (dropWhile (\<lambda>c. c \<noteq> CHR ''/'') (rev name)))"

text \<open>
  \<^verbatim>\<open>ioutil.WriteFile\<close>: creates or truncates the file and writes the data. It fails
  when the directory of the file does not exist, or for the reasons of \<open>write_fault\<close>;
  the file is then not created.
\<close>

definition WriteFile :: "string \<Rightarrow> string \<Rightarrow> world \<Rightarrow> oserror option \<times> world" where
  "WriteFile name data w =
     (case write_fault w name of
        Some e \<Rightarrow> (Some (OtherError e), w)
      | None \<Rightarrow>
          if Dir name \<notin> dirs w
          then (Some (NotExist (''open '' @ name @ '': no such file or directory'')), w)
          else (None, w\<lparr>files := (files w)(name \<mapsto> data)\<rparr>))"

subsection \<open>The libraries the program calls\<close>

text \<open>
  A feed entry as \<open>gofeed\<close> delivers it; the program reads these four fields and never
  changes an entry.
\<close>

record Item =
  GUID :: string
  Link :: string
  Title :: string
  Content :: string

record Feed =
  Items :: "Item list"

text \<open>
  The feed parser, the HTML-to-text converter, the HTML unescaper and the
  quoted-printable writer are libraries outside the repository; the program is modelled
  for any behaviour of theirs. \<open>qp_Write\<close> is the error of the writer's \<open>Write\<close>,
  \<open>qp_Close\<close> the error of its \<open>Close\<close> or else the encoded text in the buffer.
\<close>

record libs =
  ParseString :: "string \<Rightarrow> error + Feed"
  HTML2Text :: "string \<Rightarrow> string"
  UnescapeString :: "string \<Rightarrow> string"
  qp_Write :: "string \<Rightarrow> error option"
  qp_Close :: "string \<Rightarrow> error + string"

subsection \<open>Composing and sending a mail\<close>

definition toQuotedPrintable :: "libs \<Rightarrow> string \<Rightarrow> error + string" where
  "toQuotedPrintable L s =
     (case qp_Write L s of
        Some err \<Rightarrow> Inl err
      | None \<Rightarrow>
          (case qp_Close L s of
             Inl err \<Rightarrow> Inl err
           | Inr ac \<Rightarrow> Inr ac))"

record TemplateParms =
  To :: string
  From :: string
  Text :: string
  HTML :: string
  Subject :: string

definition boundary_mixed :: string where
  "boundary_mixed = ''21ee3da964c7bf70def62adb9ee1a061747003c026e363e47231258c48f1''"

definition boundary_related :: string where
  "boundary_related = ''76a1282373c08a65dd49db1dea2c55111fda9a715c89720a844fabb7d497''"

definition boundary_alternative :: string where
  "boundary_alternative = ''4186c39e13b2140c88094b3933206336f2bb3948db7ecf064c7a7d7473f2''"

text \<open>
  The program's \<open>Template\<close>, executed on the parameters: \<open>text/template\<close> puts each
  field in its place as it is.
\<close>

definition Template :: "TemplateParms \<Rightarrow> string" where
  "Template x = concat (map (\<lambda>l. l @ NL)
     [''Content-Type: multipart/mixed; boundary='' @ boundary_mixed,
      ''From: '' @ From x,
      ''To: '' @ To x,
      ''Subject: [rss2email] '' @ Subject x,
      ''Mime-Version: 1.0'',
      [],
      ''--'' @ boundary_mixed,
      ''Content-Type: multipart/related; boundary='' @ boundary_related,
      [],
      ''--'' @ boundary_related,
      ''Content-Type: multipart/alternative; boundary='' @ boundary_alternative,
      [],
      ''--'' @ boundary_alternative,
      ''Content-Type: text/plain; charset=UTF-8'',
      ''Content-Transfer-Encoding: quoted-printable'',
      [],
      Text x,
      ''--'' @ boundary_alternative,
      ''Content-Type: text/html; charset=UTF-8'',
      ''Content-Transfer-Encoding: quoted-printable'',
      [],
      HTML x,
      ''--'' @ boundary_alternative @ ''--'',
      [],
      ''--'' @ boundary_related @ ''--'',
      ''--'' @ boundary_mixed @ ''--''])"

text \<open>
  \<^verbatim>\<open>func SendMail(addr, subject, textstr, htmlstr string) error\<close>. The result
  \<open>None\<close> is Go's nil error. The error of \<open>sendmail.Start()\<close> is not looked at by the
  program; a process that did not start shows as a failing write to its pipe.
\<close>

definition SendMail ::
  "libs \<Rightarrow> string \<Rightarrow> string \<Rightarrow> string \<Rightarrow> string \<Rightarrow> world \<Rightarrow> error option \<times> world" where
  "SendMail L addr subject textstr htmlstr w =
     (if addr = [] then
        (let e = ''Empty recipient address, is '' @ [CHR 0x27] @ ''$LOGNAME''
                 @ [CHR 0x27] @ '' set?''
         in (Some e, Printf (e @ NL) w))
      else
        case toQuotedPrintable L textstr of
          Inl err \<Rightarrow> (Some err, w)
        | Inr qtext \<Rightarrow>
        case toQuotedPrintable L (UnescapeString L htmlstr) of
          Inl err \<Rightarrow> (Some err, w)
        | Inr qhtml \<Rightarrow>
        let x = \<lparr>To = addr, From = ''user@rss2email.invalid'', Text = qtext, HTML = qhtml,
                 Subject = subject\<rparr>;
            buf = Template x;
            argv = [''/usr/sbin/sendmail'', ''-f'', addr, addr];
            p = sendmail w argv buf
        in case stdin_pipe_err p of
             Some err \<Rightarrow> (Some err, Printf (''Error sending email: '' @ err @ NL) w)
           | None \<Rightarrow>
           case stdout_pipe_err p of
             Some err \<Rightarrow> (Some err, Printf (''Error sending email: '' @ err @ NL) w)
           | None \<Rightarrow>
           let w1 = w\<lparr>procs := procs w @ [(argv, buf)]\<rparr>
           in case write_err p of
                Some err \<Rightarrow>
                  (Some err, Printf (''Failed to write to sendmail pipe: '' @ err @ NL) w1)
              | None \<Rightarrow>
              case read_all p of
                Inl err \<Rightarrow> (None, Printf (''Error reading mail output: '' @ err @ NL) w1)
              | Inr out \<Rightarrow>
              let w2 = (if VERBOSE w1 then Printf (out @ NL) w1 else w1)
              in case wait_err p of
                   Some err \<Rightarrow>
                     (None,
                      Printf (''Waiting for process to terminate failed: '' @ err @ NL) w2)
                 | None \<Rightarrow> (None, w2))"

subsection \<open>Fetching a feed\<close>

text \<open>
  \<^verbatim>\<open>func FetchFeed(url string) (string, error)\<close>: building the request can fail
  before anything is sent; sending it and reading the body can fail afterwards.
\<close>

definition FetchFeed :: "string \<Rightarrow> world \<Rightarrow> (error + string) \<times> world" where
  "FetchFeed url w =
     (case http w url of
        NewRequestFails err \<Rightarrow> (Inl err, w)
      | DoFails err \<Rightarrow> (Inl err, w\<lparr>requests := requests w @ [url]\<rparr>)
      | ReadFails err \<Rightarrow> (Inl err, w\<lparr>requests := requests w @ [url]\<rparr>)
      | Body output \<Rightarrow> (Inr output, w\<lparr>requests := requests w @ [url]\<rparr>))"

subsection \<open>The seen markers\<close>

text \<open>\<^verbatim>\<open>func HasSeen(item *gofeed.Item) bool\<close>\<close>

definition HasSeen :: "Item \<Rightarrow> world \<Rightarrow> bool" where
  "HasSeen item w =
     (let sha = GUID2Hash (GUID item);
          err = Stat (Getenv ''HOME'' w @ ''/.rss2email/seen/'' @ sha) w
      in if IsNotExist err then False else True)"

text \<open>
  \<^verbatim>\<open>func RecordSeen(item *gofeed.Item)\<close>: it has no result; the errors of
  \<open>MkdirAll\<close> and of \<open>WriteFile\<close> are dropped.
\<close>

definition RecordSeen :: "Item \<Rightarrow> world \<Rightarrow> world" where
  "RecordSeen item w =
     (let dir = Getenv ''HOME'' w @ ''/.rss2email/seen'';
          w1 = snd (MkdirAll dir w);
          d1 = Link item;
          sha = GUID2Hash (GUID item)
      in snd (WriteFile (dir @ ''/'' @ sha) d1 w1))"

subsection \<open>Processing one feed\<close>

text \<open>The body of the loop over \<open>feed.Items\<close> in \<open>ProcessURL\<close>.\<close>

definition ProcessURL_item :: "libs \<Rightarrow> Item \<Rightarrow> world \<Rightarrow> world" where
  "ProcessURL_item L i w =
     (if \<not> HasSeen i w then
        (let w1 = (if VERBOSE w then Printf (''New item: '' @ GUID i @ NL) w else w);
             text = HTML2Text L (Content i);
             (err, w2) = SendMail L (Getenv ''LOGNAME'' w1) (Title i) text (Content i) w1
         in if err = None then RecordSeen i w2 else w2)
      else w)"

fun ProcessURL_items :: "libs \<Rightarrow> Item list \<Rightarrow> world \<Rightarrow> world" where
  "ProcessURL_items L [] w = w"
| "ProcessURL_items L (i # is) w = ProcessURL_items L is (ProcessURL_item L i w)"

text \<open>\<^verbatim>\<open>func ProcessURL(input string)\<close>: it has no result.\<close>

definition ProcessURL :: "libs \<Rightarrow> string \<Rightarrow> world \<Rightarrow> world" where
  "ProcessURL L input w =
     (let w1 = (if VERBOSE w then Printf (''Fetching '' @ input @ NL) w else w)
      in case FetchFeed input w1 of
           (Inl err, w2) \<Rightarrow>
             Printf (''Error processing '' @ input @ '' - '' @ err @ NL) w2
         | (Inr txt, w2) \<Rightarrow>
             (case ParseString L txt of
                Inl err \<Rightarrow>
                  Printf (''Error parsing '' @ input @ '' contents: '' @ err @ NL) w2
              | Inr feed \<Rightarrow>
                  (let w3 = (if VERBOSE w2
                             then Printf (''Found '' @ decimal (length (Items feed))
                                          @ '' entries'' @ NL) w2
                             else w2)
                   in ProcessURL_items L (Items feed) w3)))"

subsection \<open>The run\<close>

definition version :: string where
  "version = ''master/unreleased''"

text \<open>The loop of \<open>main\<close> over the lines the scanner delivers.\<close>

fun main_lines :: "libs \<Rightarrow> string list \<Rightarrow> world \<Rightarrow> world" where
  "main_lines L [] w = w"
| "main_lines L (l # ls) w =
     (let tmp = TrimSpace l
      in if tmp \<noteq> [] \<and> \<not> HasPrefix tmp ''#''
         then main_lines L ls (ProcessURL L tmp w)
         else main_lines L ls w)"

text \<open>
  \<^verbatim>\<open>func main()\<close>, from the parsed flags on. The first component of the result is
  the exit status of the process: \<open>os.Exit(0)\<close> after printing the version, and 0 as for
  every Go program whose \<open>main\<close> returns.
\<close>

definition main :: "libs \<Rightarrow> bool \<Rightarrow> bool \<Rightarrow> world \<Rightarrow> nat \<times> world" where
  "main L verbose showver w =
     (if showver then (0, Printf (''rss2email '' @ version @ NL) w)
      else
        let w1 = w\<lparr>VERBOSE := verbose\<rparr>;
            path = Getenv ''HOME'' w1 @ ''/.rss2email/feeds''
        in case Open path w1 of
             Inl err \<Rightarrow>
               (0, Printf (''Error opening '' @ path @ '' - '' @ Error err @ NL) w1)
           | Inr content \<Rightarrow> (0, main_lines L (ScanLines content) w1))"

subsection \<open>Names used in the statements\<close>

text \<open>The directory of the markers and the path of an entry's marker, as the program builds them.\<close>

definition seen_dir :: "world \<Rightarrow> string" where
  "seen_dir w = Getenv ''HOME'' w @ ''/.rss2email/seen''"

definition seen_path :: "Item \<Rightarrow> world \<Rightarrow> string" where
  "seen_path item w = seen_dir w @ ''/'' @ GUID2Hash (GUID item)"

text \<open>The error of \<open>WriteFile\<close> that \<open>RecordSeen\<close> drops.\<close>

definition RecordSeen_dropped :: "Item \<Rightarrow> world \<Rightarrow> oserror option" where
  "RecordSeen_dropped item w =
     fst (WriteFile (seen_path item w) (Link item) (snd (MkdirAll (seen_dir w) w)))"


subsection \<open>Example data\<close>

definition ex_item :: Item where
  "ex_item = \<lparr>GUID = ''a'', Link = ''https://example.com/a'', Title = ''A'',
              Content = ''<p>a</p>''\<rparr>"

definition ex_item2 :: Item where
  "ex_item2 = \<lparr>GUID = ''a'', Link = ''https://example.com/a2'', Title = ''A, again'',
               Content = ''<p>a, edited</p>''\<rparr>"

definition ex_libs :: libs where
  "ex_libs = \<lparr>ParseString = (\<lambda>txt. if txt = ''<rss>a</rss>'' then Inr \<lparr>Items = [ex_item]\<rparr>
                                   else Inl ''Failed to detect feed type''),
              HTML2Text = (\<lambda>s. ''a''),
              UnescapeString = (\<lambda>s. s),
              qp_Write = (\<lambda>s. None),
              qp_Close = (\<lambda>s. Inr s)\<rparr>"

definition ok_proc :: proc where
  "ok_proc = \<lparr>stdin_pipe_err = None, stdout_pipe_err = None, write_err = None,
              read_all = Inr [], wait_err = None\<rparr>"

definition ex_feeds_file :: string where
  "ex_feeds_file = ''# feeds'' @ NL @ ''  http://f/a  '' @ NL"

definition ex_world :: world where
  "ex_world =
     \<lparr>env = [''HOME'' \<mapsto> ''/home/u'', ''LOGNAME'' \<mapsto> ''u''],
      VERBOSE = False,
      dirs = {''/home/u'', ''/home/u/.rss2email''},
      files = [''/home/u/.rss2email/feeds'' \<mapsto> ex_feeds_file],
      stat_fault = Map.empty,
      open_fault = Map.empty,
      mkdir_fault = Map.empty,
      write_fault = Map.empty,
      http = (\<lambda>url. if url = ''http://f/a'' then Body ''<rss>a</rss>''
                      else DoFails ''no such host''),
      requests = [],
      sendmail = (\<lambda>argv input. ok_proc),
      procs = [],
      stdout = []\<rparr>"

definition denied_world :: world where
  "denied_world = ex_world\<lparr>stat_fault := (\<lambda>p. Some ''permission denied'')\<rparr>"

definition readonly_world :: world where
  "readonly_world =
     ex_world\<lparr>dirs := insert ''/home/u/.rss2email/seen'' (dirs ex_world),
              mkdir_fault := (\<lambda>p. Some ''read-only file system''),
              write_fault := (\<lambda>p. Some ''read-only file system'')\<rparr>"

definition bounce_world :: world where
  "bounce_world = ex_world\<lparr>sendmail := (\<lambda>argv input. ok_proc\<lparr>wait_err := Some ''exit status 75''\<rparr>)\<rparr>"

definition nofeeds_world :: world where
  "nofeeds_world = ex_world\<lparr>files := Map.empty\<rparr>"

definition brokenpipe_world :: world where
  "brokenpipe_world =
     ex_world\<lparr>sendmail := (\<lambda>argv input. ok_proc\<lparr>write_err := Some ''write |1: broken pipe''\<rparr>)\<rparr>"


definition junk_world :: world where
  "junk_world = ex_world\<lparr>http := (\<lambda>url. Body ''junk'')\<rparr>"


text \<open>Whether \<open>FetchFeed\<close> gets as far as sending the request for a URL.\<close>

definition request_sent :: "world \<Rightarrow> string \<Rightarrow> bool" where
  "request_sent w url = (case http w url of NewRequestFails err \<Rightarrow> False | _ \<Rightarrow> True)"

section \<open>Properties\<close>

subsection \<open>The identity hasher\<close>

lemma length_be32: "length (be32 x) = 4"
  by (simp add: be32_def)

lemma length_sha1_sum: "length (sha1_sum msg) = 20"
  by (simp add: sha1_sum_def length_be32 split: prod.split)

lemma length_EncodeToString: "length (EncodeToString bs) = 2 * length bs"
  by (induction bs) (simp_all add: EncodeToString_def)

lemma hextable_nth: "n < 16 \<Longrightarrow> is_lower_hex (hextable ! n)"
proof -
  assume "n < 16"
  then have "n < length hextable" by (simp add: hextable_def)
  then have "hextable ! n \<in> set hextable" by (rule nth_mem)
  then show ?thesis by (simp add: is_lower_hex_def hextable_def)
qed

lemma high_nibble_bound: "unat (drop_bit 4 (v :: byte)) < 16"
proof -
  have "unat (drop_bit 4 v) = drop_bit 4 (unat v)"
    by (rule unat_drop_bit_eq)
  also have "\<dots> = unat v div 2 ^ 4"
    by (rule drop_bit_eq_div)
  finally have "unat (drop_bit 4 v) = unat v div 16"
    by simp
  moreover have "unat v < 256"
    using unsigned_less [of v] by simp
  ultimately show ?thesis by simp
qed

lemma low_nibble_bound: "unat ((v :: byte) AND 0x0f) < 16"
proof -
  have "v AND 0x0f \<le> 0x0f"
    by (rule word_and_le1)
  then have "unat (v AND 0x0f) \<le> unat (0x0f :: byte)"
    by (simp add: word_le_nat_alt)
  then show ?thesis by simp
qed

lemma EncodeToString_hex: "list_all is_lower_hex (EncodeToString bs)"
  by (induction bs)
     (simp_all add: EncodeToString_def hextable_nth high_nibble_bound low_nibble_bound)

text \<open>
  C7. For every GUID, the empty one included, \<open>GUID2Hash\<close> returns 40 characters, each
  a lowercase hexadecimal digit. The function has no state argument and no error result:
  its value depends on the GUID alone.
\<close>

theorem GUID2Hash_forty_lower_hex:
  "length (GUID2Hash guid) = 40 \<and> list_all is_lower_hex (GUID2Hash guid)
   \<and> length (GUID2Hash []) = 40"
  by (simp add: GUID2Hash_def length_EncodeToString length_sha1_sum EncodeToString_hex)

theorem GUID2Hash_forty_lower_hex_witness:
  "length (GUID2Hash ''https://example.com/a'') = 40
   \<and> list_all is_lower_hex (GUID2Hash ''https://example.com/a'')
   \<and> length (GUID2Hash []) = 40"
  by (rule GUID2Hash_forty_lower_hex)


subsection \<open>Markers and their paths\<close>

lemma HasSeen_Stat: "HasSeen item w = (\<not> IsNotExist (Stat (seen_path item w) w))"
  by (simp add: HasSeen_def seen_path_def seen_dir_def Let_def)

lemma HasSeen_iff:
  "HasSeen item w \<longleftrightarrow>
     stat_fault w (seen_path item w) \<noteq> None \<or> files w (seen_path item w) \<noteq> None
     \<or> seen_path item w \<in> dirs w"
  by (auto simp: HasSeen_Stat Stat_def split: option.splits)

lemma GUID2Hash_no_slash: "CHR ''/'' \<notin> set (GUID2Hash g)"
proof
  assume "CHR ''/'' \<in> set (GUID2Hash g)"
  moreover have "list_all is_lower_hex (GUID2Hash g)"
    by (simp add: GUID2Hash_def EncodeToString_hex)
  ultimately have "is_lower_hex CHR ''/''"
    by (simp add: list_all_iff)
  then show False by (simp add: is_lower_hex_def)
qed

lemma Dir_append:
  assumes "CHR ''/'' \<notin> set h"
  shows "Dir (d @ CHR ''/'' # h) = d"
proof -
  have "dropWhile (\<lambda>c. c \<noteq> CHR ''/'') (rev h) = []"
    using assms by (auto simp: dropWhile_eq_Nil_conv)
  then have "dropWhile (\<lambda>c. c \<noteq> CHR ''/'') (rev h @ CHR ''/'' # rev d) = CHR ''/'' # rev d"
    by (simp add: dropWhile_append3)
  then show ?thesis by (simp add: Dir_def)
qed

lemma Dir_seen_path: "Dir (seen_path item w) = seen_dir w"
  by (simp add: seen_path_def Dir_append GUID2Hash_no_slash)

lemma RecordSeen_alt:
  "RecordSeen item w =
     snd (WriteFile (seen_path item w) (Link item) (snd (MkdirAll (seen_dir w) w)))"
  by (simp add: RecordSeen_def Let_def seen_path_def seen_dir_def)

lemma RecordSeen_dropped_iff:
  "RecordSeen_dropped item w = None \<longleftrightarrow>
     write_fault w (seen_path item w) = None
     \<and> (mkdir_fault w (seen_dir w) = None \<or> seen_dir w \<in> dirs w)"
  by (auto simp: RecordSeen_dropped_def WriteFile_def MkdirAll_def Dir_seen_path
           split: option.splits)

lemma RecordSeen_ok:
  "RecordSeen_dropped item w = None \<Longrightarrow>
   RecordSeen item w =
     w\<lparr>dirs := dirs (snd (MkdirAll (seen_dir w) w)),
       files := (files w)(seen_path item w \<mapsto> Link item)\<rparr>"
  by (auto simp: RecordSeen_alt RecordSeen_dropped_def WriteFile_def MkdirAll_def Dir_seen_path
           split: option.splits if_splits)

lemma RecordSeen_failed:
  "RecordSeen_dropped item w \<noteq> None \<Longrightarrow>
   RecordSeen item w = w\<lparr>dirs := dirs (snd (MkdirAll (seen_dir w) w))\<rparr>"
  by (auto simp: RecordSeen_alt RecordSeen_dropped_def WriteFile_def MkdirAll_def Dir_seen_path
           split: option.splits if_splits)

lemma RecordSeen_frame:
  "RecordSeen item w = w\<lparr>dirs := dirs (RecordSeen item w), files := files (RecordSeen item w)\<rparr>"
  by (cases "RecordSeen_dropped item w = None") (simp_all add: RecordSeen_ok RecordSeen_failed)





lemma Getenv_cong: "env w' = env w \<Longrightarrow> Getenv k w' = Getenv k w"
  by (simp add: Getenv_def)


lemma seen_path_cong: "env w' = env w \<Longrightarrow> seen_path i w' = seen_path i w"
  by (simp add: seen_path_def seen_dir_def Getenv_cong [of w' w])

lemma seen_dir_cong: "env w' = env w \<Longrightarrow> seen_dir w' = seen_dir w"
  by (simp add: seen_dir_def Getenv_cong [of w' w])

lemma ProcessURL_item_seen: "HasSeen i w \<Longrightarrow> ProcessURL_item L i w = w"
  by (simp add: ProcessURL_item_def)



lemma RecordSeen_files:
  "files (RecordSeen i w) =
     (if RecordSeen_dropped i w = None then (files w)(seen_path i w \<mapsto> Link i) else files w)"
  by (simp add: RecordSeen_ok RecordSeen_failed)

lemma RecordSeen_dirs:
  "dirs (RecordSeen i w) =
     (if mkdir_fault w (seen_dir w) = None then insert (seen_dir w) (dirs w) else dirs w)"
  by (cases "RecordSeen_dropped i w = None")
     (auto simp: RecordSeen_ok RecordSeen_failed MkdirAll_def split: option.splits)

lemma RecordSeen_fields:
  "env (RecordSeen i w) = env w"
  "VERBOSE (RecordSeen i w) = VERBOSE w"
  "stat_fault (RecordSeen i w) = stat_fault w"
  "open_fault (RecordSeen i w) = open_fault w"
  "mkdir_fault (RecordSeen i w) = mkdir_fault w"
  "write_fault (RecordSeen i w) = write_fault w"
  "http (RecordSeen i w) = http w"
  "requests (RecordSeen i w) = requests w"
  "sendmail (RecordSeen i w) = sendmail w"
  "procs (RecordSeen i w) = procs w"
  "stdout (RecordSeen i w) = stdout w"
  by (subst RecordSeen_frame, simp)+







subsection \<open>Delivery and the marker of an entry\<close>



lemma ex_seen_dir [simp]:
  "seen_dir ex_world = ''/home/u/.rss2email/seen''"
  "seen_dir readonly_world = ''/home/u/.rss2email/seen''"
  "seen_dir brokenpipe_world = ''/home/u/.rss2email/seen''"
  "seen_dir denied_world = ''/home/u/.rss2email/seen''"
  "seen_dir bounce_world = ''/home/u/.rss2email/seen''"
  by (simp_all add: seen_dir_def Getenv_def ex_world_def readonly_world_def
        brokenpipe_world_def denied_world_def bounce_world_def)



lemma ex_dropped:
  "RecordSeen_dropped ex_item ex_world = None"
  "RecordSeen_dropped ex_item readonly_world \<noteq> None"
  by (simp_all add: RecordSeen_dropped_iff)
     (simp_all add: ex_world_def readonly_world_def)






subsection \<open>What \<open>HasSeen\<close> answers\<close>

text \<open>
  C2, as the code has it. \<open>HasSeen\<close> returns false exactly when \<open>os.Stat\<close> of the marker
  path reports that the file does not exist. It returns true when the marker is there, and
  also when \<open>os.Stat\<close> fails for any other reason: a storage failure counts as seen.
\<close>

theorem HasSeen_false_iff_not_exist:
  "(\<not> HasSeen item w \<longleftrightarrow> (\<exists>m. Stat (seen_path item w) w = Some (NotExist m)))
   \<and> (Stat (seen_path item w) w = None \<longrightarrow> HasSeen item w)
   \<and> (\<forall>e. Stat (seen_path item w) w = Some (OtherError e) \<longrightarrow> HasSeen item w)
   \<and> (files w (seen_path item w) \<noteq> None \<longrightarrow> HasSeen item w)"
proof -
  have "(\<not> HasSeen item w) = IsNotExist (Stat (seen_path item w) w)"
    by (simp add: HasSeen_Stat)
  moreover have "IsNotExist r \<longleftrightarrow> (\<exists>m. r = Some (NotExist m))" for r
    by (cases r rule: IsNotExist.cases) simp_all
  ultimately show ?thesis
    by (auto simp: HasSeen_iff)
qed

lemma denied_Stat:
  "Stat (seen_path ex_item denied_world) denied_world = Some (OtherError ''permission denied'')"
  by (simp add: Stat_def denied_world_def)

lemma denied_no_marker: "files denied_world (seen_path ex_item denied_world) = None"
  by (simp add: seen_path_def) (simp add: denied_world_def ex_world_def)

theorem HasSeen_false_iff_not_exist_witness:
  "Stat (seen_path ex_item denied_world) denied_world = Some (OtherError ''permission denied'')
   \<and> HasSeen ex_item denied_world
   \<and> (\<exists>m. Stat (seen_path ex_item ex_world) ex_world = Some (NotExist m))
   \<and> \<not> HasSeen ex_item ex_world"
proof -
  have "\<exists>m. Stat (seen_path ex_item ex_world) ex_world = Some (NotExist m)"
    by (simp add: Stat_def seen_path_def) (simp add: ex_world_def)
  then show ?thesis
    using HasSeen_false_iff_not_exist [of ex_item denied_world]
          HasSeen_false_iff_not_exist [of ex_item ex_world] denied_Stat
    by blast
qed

theorem HasSeen_fail_open_counterexample:
  "files denied_world (seen_path ex_item denied_world) = None
   \<and> Stat (seen_path ex_item denied_world) denied_world = Some (OtherError ''permission denied'')
   \<and> HasSeen ex_item denied_world = True"
  by (simp add: denied_no_marker denied_Stat HasSeen_Stat)

subsection \<open>What \<open>RecordSeen\<close> tells its caller\<close>





subsection \<open>The identity of an entry is its GUID\<close>

lemma same_GUID_seen_path: "GUID i = GUID j \<Longrightarrow> seen_path i w = seen_path j w"
  by (simp add: seen_path_def)

lemma same_GUID_HasSeen: "GUID i = GUID j \<Longrightarrow> HasSeen i w = HasSeen j w"
  by (simp add: HasSeen_iff same_GUID_seen_path [of i j])

lemma same_GUID_dropped:
  "GUID i = GUID j \<Longrightarrow> (RecordSeen_dropped i w = None) = (RecordSeen_dropped j w = None)"
  by (simp add: RecordSeen_dropped_iff same_GUID_seen_path [of i j])

lemma RecordSeen_then_seen: "RecordSeen_dropped i w = None \<Longrightarrow> HasSeen i (RecordSeen i w)"
  by (simp add: HasSeen_iff RecordSeen_files seen_path_cong [of "RecordSeen i w" w]
        RecordSeen_fields)

lemma RecordSeen_again:
  assumes "RecordSeen_dropped i w = None"
  shows "RecordSeen_dropped i (RecordSeen i w) = None"
proof -
  have "seen_dir (RecordSeen i w) = seen_dir w" "seen_path i (RecordSeen i w) = seen_path i w"
    by (simp_all add: seen_dir_cong [of "RecordSeen i w" w]
          seen_path_cong [of "RecordSeen i w" w] RecordSeen_fields)
  with assms show ?thesis
    by (auto simp: RecordSeen_dropped_iff RecordSeen_fields RecordSeen_dirs)
qed

lemma all_seen_no_change:
  "\<forall>j\<in>set js. HasSeen j w \<Longrightarrow> ProcessURL_items L js w = w"
  by (induction js) (simp_all add: ProcessURL_item_seen)

text \<open>
  C10. The marker path and the answers of \<open>HasSeen\<close> are the same for two entries with
  the same GUID, whatever their link, title and content. Once one of them is marked, the
  other is seen: processing it, alone or in a list of such entries, changes nothing, so no
  mail is sent for it. A second \<open>RecordSeen\<close> puts the second entry's link in the place of
  the first one's.
\<close>

theorem same_GUID_same_identity:
  assumes "GUID i = GUID j"
  shows "seen_path i w = seen_path j w
     \<and> HasSeen i w = HasSeen j w
     \<and> (HasSeen i w \<longrightarrow> ProcessURL_item L j w = w)
     \<and> (HasSeen i w \<longrightarrow> (\<forall>k\<in>set js. GUID k = GUID i) \<longrightarrow> ProcessURL_items L js w = w)
     \<and> (RecordSeen_dropped i w = None \<longrightarrow>
           HasSeen j (RecordSeen i w)
         \<and> ProcessURL_item L j (RecordSeen i w) = RecordSeen i w
         \<and> files (RecordSeen i w) (seen_path i w) = Some (Link i)
         \<and> files (RecordSeen j (RecordSeen i w)) (seen_path i w) = Some (Link j))"
proof -
  have p: "seen_path i w = seen_path j w"
    using assms by (rule same_GUID_seen_path)
  have h: "HasSeen i w' = HasSeen j w'" for w'
    using assms by (rule same_GUID_HasSeen)
  have one: "HasSeen i w \<Longrightarrow> ProcessURL_item L j w = w"
    by (simp add: h ProcessURL_item_seen)
  have many: "ProcessURL_items L js w = w" if "HasSeen i w" "\<forall>k\<in>set js. GUID k = GUID i"
  proof (rule all_seen_no_change, rule ballI)
    fix k assume "k \<in> set js"
    with that(2) have "GUID k = GUID i" by simp
    then show "HasSeen k w" using that(1) by (simp add: same_GUID_HasSeen [of k i])
  qed
  have marked: "HasSeen j (RecordSeen i w)
         \<and> ProcessURL_item L j (RecordSeen i w) = RecordSeen i w
         \<and> files (RecordSeen i w) (seen_path i w) = Some (Link i)
         \<and> files (RecordSeen j (RecordSeen i w)) (seen_path i w) = Some (Link j)"
    if ok: "RecordSeen_dropped i w = None"
  proof -
    let ?w = "RecordSeen i w"
    have s: "HasSeen j ?w"
      using RecordSeen_then_seen [OF ok] by (simp add: h)
    have again: "RecordSeen_dropped j ?w = None"
      using RecordSeen_again [OF ok] assms by (simp add: same_GUID_dropped [of i j])
    have pj: "seen_path j ?w = seen_path i w"
      by (simp add: seen_path_cong [of ?w w] RecordSeen_fields p)
    show ?thesis
      by (simp add: s ProcessURL_item_seen RecordSeen_files ok again pj)
  qed
  show ?thesis
  proof (intro conjI impI)
    show "seen_path i w = seen_path j w" by (rule p)
    show "HasSeen i w = HasSeen j w" by (rule h)
    show "ProcessURL_item L j w = w" if "HasSeen i w" using that by (rule one)
    show "ProcessURL_items L js w = w" if "HasSeen i w" "\<forall>k\<in>set js. GUID k = GUID i"
      using that by (rule many)
    show "HasSeen j (RecordSeen i w)" if "RecordSeen_dropped i w = None"
      using marked [OF that] by (rule conjunct1)
    show "ProcessURL_item L j (RecordSeen i w) = RecordSeen i w"
      if "RecordSeen_dropped i w = None"
      using marked [OF that] by simp
    show "files (RecordSeen i w) (seen_path i w) = Some (Link i)"
      if "RecordSeen_dropped i w = None"
      using marked [OF that] by simp
    show "files (RecordSeen j (RecordSeen i w)) (seen_path i w) = Some (Link j)"
      if "RecordSeen_dropped i w = None"
      using marked [OF that] by simp
  qed
qed

theorem same_GUID_same_identity_witness:
  "GUID ex_item = GUID ex_item2
   \<and> Link ex_item \<noteq> Link ex_item2
   \<and> RecordSeen_dropped ex_item ex_world = None
   \<and> HasSeen ex_item2 (RecordSeen ex_item ex_world)
   \<and> ProcessURL_item ex_libs ex_item2 (RecordSeen ex_item ex_world) = RecordSeen ex_item ex_world
   \<and> files (RecordSeen ex_item2 (RecordSeen ex_item ex_world)) (seen_path ex_item ex_world)
       = Some ''https://example.com/a2''"
proof -
  have g: "GUID ex_item = GUID ex_item2"
    by (simp add: ex_item_def ex_item2_def)
  have l: "Link ex_item \<noteq> Link ex_item2" "Link ex_item2 = ''https://example.com/a2''"
    by (simp_all add: ex_item_def ex_item2_def)
  have "HasSeen ex_item2 (RecordSeen ex_item ex_world)
     \<and> ProcessURL_item ex_libs ex_item2 (RecordSeen ex_item ex_world) = RecordSeen ex_item ex_world
     \<and> files (RecordSeen ex_item2 (RecordSeen ex_item ex_world)) (seen_path ex_item ex_world)
         = Some (Link ex_item2)"
    using same_GUID_same_identity [OF g, of ex_world ex_libs "[]", THEN conjunct2,
            THEN conjunct2, THEN conjunct2, THEN conjunct2] ex_dropped(1)
    by simp
  then show ?thesis
    using g l ex_dropped(1) by simp
qed


subsection \<open>What \<open>SendMail\<close> returns\<close>





subsection \<open>A feed list that cannot be opened\<close>

text \<open>
  C6, as the code has it. When the feed list cannot be opened, \<open>main\<close> prints the error
  and returns at once: no line is read, no feed is fetched, no mail is sent and no file is
  written. Returning from \<open>main\<close> ends the process with exit status 0.
\<close>

theorem main_feed_list_not_opened:
  assumes "Open (Getenv ''HOME'' w @ ''/.rss2email/feeds'') w = Inl err"
  shows "main L verbose False w =
           (0, Printf (''Error opening '' @ Getenv ''HOME'' w @ ''/.rss2email/feeds'' @ '' - ''
                        @ Error err @ NL) (w\<lparr>VERBOSE := verbose\<rparr>))
         \<and> requests (snd (main L verbose False w)) = requests w
         \<and> procs (snd (main L verbose False w)) = procs w
         \<and> files (snd (main L verbose False w)) = files w"
proof -
  have "Open p (w\<lparr>VERBOSE := verbose\<rparr>) = Open p w" for p
    by (simp add: Open_def split: option.splits)
  moreover have "Getenv k (w\<lparr>VERBOSE := verbose\<rparr>) = Getenv k w" for k
    by (simp add: Getenv_def)
  ultimately show ?thesis
    using assms by (simp add: main_def Let_def Printf_def)
qed

lemma nofeeds_Open:
  "Open (Getenv ''HOME'' nofeeds_world @ ''/.rss2email/feeds'') nofeeds_world
     = Inl (NotExist ''open /home/u/.rss2email/feeds: no such file or directory'')"
  by (simp add: Open_def Getenv_def nofeeds_world_def ex_world_def)

theorem main_feed_list_not_opened_witness:
  "Open (Getenv ''HOME'' nofeeds_world @ ''/.rss2email/feeds'') nofeeds_world
     = Inl (NotExist ''open /home/u/.rss2email/feeds: no such file or directory'')
   \<and> requests (snd (main ex_libs True False nofeeds_world)) = []
   \<and> procs (snd (main ex_libs True False nofeeds_world)) = []"
proof -
  have e: "requests nofeeds_world = []" "procs nofeeds_world = []"
    by (simp_all add: nofeeds_world_def ex_world_def)
  show ?thesis
    using main_feed_list_not_opened [OF nofeeds_Open, of ex_libs True, THEN conjunct2]
    by (simp add: nofeeds_Open e)
qed

theorem main_exit_status_counterexample:
  "Open (Getenv ''HOME'' nofeeds_world @ ''/.rss2email/feeds'') nofeeds_world
     = Inl (NotExist ''open /home/u/.rss2email/feeds: no such file or directory'')
   \<and> fst (main ex_libs False False nofeeds_world) = 0"
proof -
  have "Open p (nofeeds_world\<lparr>VERBOSE := False\<rparr>) = Open p nofeeds_world" for p
    by (simp add: Open_def split: option.splits)
  moreover have "Getenv k (nofeeds_world\<lparr>VERBOSE := False\<rparr>) = Getenv k nofeeds_world" for k
    by (simp add: Getenv_def)
  ultimately show ?thesis
    by (simp add: main_def Let_def nofeeds_Open)
qed


subsection \<open>The lines of the feed list\<close>







subsection \<open>A run over the entries of a feed\<close>



















subsection \<open>A feed that cannot be fetched or parsed\<close>

lemma FetchFeed_fst_cong: "http w' = http w \<Longrightarrow> fst (FetchFeed url w') = fst (FetchFeed url w)"
  by (simp add: FetchFeed_def split: http_outcome.splits)

lemma FetchFeed_frame:
  "snd (FetchFeed url w) = w\<lparr>requests := requests w @ (if request_sent w url then [url] else [])\<rparr>"
  by (simp add: FetchFeed_def request_sent_def split: http_outcome.splits)

text \<open>
  C9. \<open>ProcessURL\<close> has no result. When the fetch fails, or when the fetched text does not
  parse, it prints the error (after the \<open>Fetching\<close> line of a verbose run) and returns:
  no entry is processed, so no mail is sent and no file or directory is written. The loop
  of \<open>main\<close> then goes on with the lines that follow.
\<close>

theorem ProcessURL_bad_feed:
  "(fst (FetchFeed url w) = Inl err \<longrightarrow>
      stdout (ProcessURL L url w) =
        stdout w @ (if VERBOSE w then [''Fetching '' @ url @ NL] else [])
                 @ [''Error processing '' @ url @ '' - '' @ err @ NL]
      \<and> procs (ProcessURL L url w) = procs w
      \<and> files (ProcessURL L url w) = files w
      \<and> dirs (ProcessURL L url w) = dirs w)
   \<and> (fst (FetchFeed url w) = Inr txt \<and> ParseString L txt = Inl err \<longrightarrow>
      stdout (ProcessURL L url w) =
        stdout w @ (if VERBOSE w then [''Fetching '' @ url @ NL] else [])
                 @ [''Error parsing '' @ url @ '' contents: '' @ err @ NL]
      \<and> procs (ProcessURL L url w) = procs w
      \<and> files (ProcessURL L url w) = files w
      \<and> dirs (ProcessURL L url w) = dirs w)
   \<and> (TrimSpace l \<noteq> [] \<and> \<not> HasPrefix (TrimSpace l) ''#'' \<longrightarrow>
      main_lines L (l # ls) w = main_lines L ls (ProcessURL L (TrimSpace l) w))"
proof -
  define w1 where "w1 = (if VERBOSE w then Printf (''Fetching '' @ url @ NL) w else w)"
  have h: "http w1 = http w" "request_sent w1 url = request_sent w url"
    by (simp_all add: w1_def Printf_def request_sent_def)
  have f: "fst (FetchFeed url w1) = fst (FetchFeed url w)"
    by (rule FetchFeed_fst_cong) (rule h)
  have p: "ProcessURL L url w =
        (case FetchFeed url w1 of
           (Inl err, w2) \<Rightarrow> Printf (''Error processing '' @ url @ '' - '' @ err @ NL) w2
         | (Inr txt, w2) \<Rightarrow>
             (case ParseString L txt of
                Inl err \<Rightarrow> Printf (''Error parsing '' @ url @ '' contents: '' @ err @ NL) w2
              | Inr feed \<Rightarrow>
                  (let w3 = (if VERBOSE w2
                             then Printf (''Found '' @ decimal (length (Items feed))
                                          @ '' entries'' @ NL) w2
                             else w2)
                   in ProcessURL_items L (Items feed) w3)))"
    by (simp add: ProcessURL_def w1_def Let_def)
  have s: "snd (FetchFeed url w1) =
             w1\<lparr>requests := requests w1 @ (if request_sent w url then [url] else [])\<rparr>"
    by (simp add: FetchFeed_frame h)
  have fetch: "ProcessURL L url w =
          Printf (''Error processing '' @ url @ '' - '' @ err @ NL) (snd (FetchFeed url w1))"
    if "fst (FetchFeed url w) = Inl err"
  proof -
    obtain r w2 where r: "FetchFeed url w1 = (r, w2)"
      by (cases "FetchFeed url w1")
    with that f have "r = Inl err" by simp
    with r show ?thesis by (simp add: p)
  qed
  have parse: "ProcessURL L url w =
          Printf (''Error parsing '' @ url @ '' contents: '' @ err @ NL) (snd (FetchFeed url w1))"
    if "fst (FetchFeed url w) = Inr txt" "ParseString L txt = Inl err"
  proof -
    obtain r w2 where r: "FetchFeed url w1 = (r, w2)"
      by (cases "FetchFeed url w1")
    with that(1) f have "r = Inr txt" by simp
    with r that(2) show ?thesis by (simp add: p)
  qed
  show ?thesis
  proof (intro conjI impI)
    assume a: "fst (FetchFeed url w) = Inl err"
    show "stdout (ProcessURL L url w) =
        stdout w @ (if VERBOSE w then [''Fetching '' @ url @ NL] else [])
                 @ [''Error processing '' @ url @ '' - '' @ err @ NL]"
      unfolding fetch [OF a] s by (simp add: Printf_def w1_def)
    show "procs (ProcessURL L url w) = procs w"
      unfolding fetch [OF a] s by (simp add: Printf_def w1_def)
    show "files (ProcessURL L url w) = files w"
      unfolding fetch [OF a] s by (simp add: Printf_def w1_def)
    show "dirs (ProcessURL L url w) = dirs w"
      unfolding fetch [OF a] s by (simp add: Printf_def w1_def)
  next
    assume "fst (FetchFeed url w) = Inr txt \<and> ParseString L txt = Inl err"
    then have a: "fst (FetchFeed url w) = Inr txt" and b: "ParseString L txt = Inl err"
      by simp_all
    show "stdout (ProcessURL L url w) =
        stdout w @ (if VERBOSE w then [''Fetching '' @ url @ NL] else [])
                 @ [''Error parsing '' @ url @ '' contents: '' @ err @ NL]"
      unfolding parse [OF a b] s by (simp add: Printf_def w1_def)
    show "procs (ProcessURL L url w) = procs w"
      unfolding parse [OF a b] s by (simp add: Printf_def w1_def)
    show "files (ProcessURL L url w) = files w"
      unfolding parse [OF a b] s by (simp add: Printf_def w1_def)
    show "dirs (ProcessURL L url w) = dirs w"
      unfolding parse [OF a b] s by (simp add: Printf_def w1_def)
  next
    assume "TrimSpace l \<noteq> [] \<and> \<not> HasPrefix (TrimSpace l) ''#''"
    then show "main_lines L (l # ls) w = main_lines L ls (ProcessURL L (TrimSpace l) w)"
      by (simp add: Let_def)
  qed
qed

lemma ex_fetch_fails: "fst (FetchFeed ''http://nowhere/'' ex_world) = Inl ''no such host''"
  by (simp add: FetchFeed_def ex_world_def)

lemma junk_fetch: "fst (FetchFeed ''http://f/a'' junk_world) = Inr ''junk''"
  by (simp add: FetchFeed_def junk_world_def)

lemma junk_parse: "ParseString ex_libs ''junk'' = Inl ''Failed to detect feed type''"
  by (simp add: ex_libs_def)

lemma ex_nowhere_line:
  "TrimSpace ''http://nowhere/'' = ''http://nowhere/''"
  "\<not> HasPrefix ''http://nowhere/'' ''#''"
  by code_simp+

theorem ProcessURL_bad_feed_witness:
  "fst (FetchFeed ''http://nowhere/'' ex_world) = Inl ''no such host''
   \<and> stdout (ProcessURL ex_libs ''http://nowhere/'' ex_world)
       = [''Error processing http://nowhere/ - no such host'' @ NL]
   \<and> procs (ProcessURL ex_libs ''http://nowhere/'' ex_world) = []
   \<and> fst (FetchFeed ''http://f/a'' junk_world) = Inr ''junk''
   \<and> ParseString ex_libs ''junk'' = Inl ''Failed to detect feed type''
   \<and> stdout (ProcessURL ex_libs ''http://f/a'' junk_world)
       = [''Error parsing http://f/a contents: Failed to detect feed type'' @ NL]
   \<and> procs (ProcessURL ex_libs ''http://f/a'' junk_world) = []
   \<and> main_lines ex_libs [''http://nowhere/'', ''http://f/a''] ex_world
       = main_lines ex_libs [''http://f/a''] (ProcessURL ex_libs ''http://nowhere/'' ex_world)"
proof -
  have e: "stdout ex_world = []" "procs ex_world = []" "\<not> VERBOSE ex_world"
    "stdout junk_world = []" "procs junk_world = []" "\<not> VERBOSE junk_world"
    by (simp_all add: ex_world_def junk_world_def)
  have a: "stdout (ProcessURL ex_libs ''http://nowhere/'' ex_world)
       = [''Error processing http://nowhere/ - no such host'' @ NL]
     \<and> procs (ProcessURL ex_libs ''http://nowhere/'' ex_world) = []"
    using ProcessURL_bad_feed [of "''http://nowhere/''" ex_world "''no such host''" ex_libs,
            THEN conjunct1] ex_fetch_fails
    by (simp add: e)
  have b: "stdout (ProcessURL ex_libs ''http://f/a'' junk_world)
       = [''Error parsing http://f/a contents: Failed to detect feed type'' @ NL]
     \<and> procs (ProcessURL ex_libs ''http://f/a'' junk_world) = []"
    using ProcessURL_bad_feed [of "''http://f/a''" junk_world
            "''Failed to detect feed type''" ex_libs "''junk''",
            THEN conjunct2, THEN conjunct1] junk_fetch junk_parse
    by (simp add: e)
  have "main_lines ex_libs (''http://nowhere/'' # [''http://f/a'']) ex_world
       = main_lines ex_libs [''http://f/a'']
           (ProcessURL ex_libs (TrimSpace ''http://nowhere/'') ex_world)"
    using ProcessURL_bad_feed [where L = ex_libs and l = "''http://nowhere/''"
            and ls = "[''http://f/a'']" and w = ex_world, THEN conjunct2, THEN conjunct2]
    by (rule mp) (simp add: ex_nowhere_line)
  then have c: "main_lines ex_libs [''http://nowhere/'', ''http://f/a''] ex_world
       = main_lines ex_libs [''http://f/a''] (ProcessURL ex_libs ''http://nowhere/'' ex_world)"
    by (simp only: ex_nowhere_line)
  show ?thesis
    using a b c by (simp only: ex_fetch_fails junk_fetch junk_parse simp_thms)
qed


subsection \<open>The run driver\<close>












end
